theory Spec2Isabelle
  imports Main "HOL-Library.Word" "HOL-Library.Sublist"
begin

section \<open>PhantomDB: the contract's data\<close>

text \<open>
  The contract PhantomDB (Solidity) keeps, for every merchant address, a dynamic array of
  purchases. Addresses are 160-bit words; the encrypted types \<open>euint32\<close> and \<open>euint64\<close>
  and their external forms are 32-byte handles; \<open>string\<close> and \<open>bytes\<close> are byte lists
  (\<open>bytes(item).length\<close> is \<open>length\<close>).

  A \<open>uint256\<close> occurs in the contract only as an array length or an array index. A storage
  array grows by one element per successful transaction, so its length stays far below
  \<open>2 ^ 256\<close>, and the only arithmetic on it is \<open>length - 1\<close> right after a \<open>push\<close>; these
  values are natural numbers here. \<open>uint64(block.timestamp)\<close> truncates, and is a cast of
  words.
\<close>

type_synonym address = "160 word"
type_synonym handle = "256 word"
type_synonym bytes = "8 word list"

record Purchase =
  userId :: handle
  item :: string
  quantity :: handle
  amount :: handle
  timestamp :: "64 word"

datatype event = PurchaseAdded address nat string "64 word"

text \<open>
  \<open>InvalidIndex\<close> and \<open>InvalidItem\<close> are the contract's own errors. \<open>InvalidProof\<close> stands
  for a revert inside the library call \<open>FHE.fromExternal\<close>.
\<close>

datatype error = InvalidIndex | InvalidItem | InvalidProof

datatype fhe_type = Euint32 | Euint64

text \<open>The calls a transaction makes into the FHE library, in the order it makes them.\<close>

datatype fhe_call =
  FromExternal fhe_type "256 word" bytes
| AllowThis handle
| Allow handle address

text \<open>
  The state a transaction works on: the contract's mapping, the grants recorded by the
  access-control list of the FHE library, and the log of emitted events.
\<close>

record state =
  purchasesByMerchant :: "address \<Rightarrow> Purchase list"
  acl :: "(handle \<times> address) set"
  events :: "event list"

text \<open>
  What a transaction sees of its environment: \<open>address(this)\<close>, \<open>msg.sender\<close>,
  \<open>block.timestamp\<close>, and the verification of external ciphertexts by the library
  (\<open>FHE.fromExternal\<close>, \<open>None\<close> when it reverts), which is not part of this repository
  and is a parameter.
\<close>

record env =
  address_this :: address
  msg_sender :: address
  block_timestamp :: "256 word"
  fromExternal :: "fhe_type \<Rightarrow> 256 word \<Rightarrow> bytes \<Rightarrow> handle option"

definition init_state :: state where
  "init_state = \<lparr>purchasesByMerchant = (\<lambda>_. []), acl = {}, events = []\<rparr>"

section \<open>The contract's functions\<close>

text \<open>
  Modelled from the spec: the library functions \<open>FHE.allowThis\<close> and \<open>FHE.allow\<close> are
  not in the repository. The spec's Capability Grant Registry is a relation of handles
  and principals, and \<open>grant\<close> is idempotent and never an error.
\<close>

definition grant :: "handle \<Rightarrow> address \<Rightarrow> state \<Rightarrow> state" where
  "grant h who s = s\<lparr>acl := insert (h, who) (acl s)\<rparr>"

definition allowThis :: "env \<Rightarrow> handle \<Rightarrow> state \<Rightarrow> state" where
  "allowThis e h s = grant h (address_this e) s"

definition allow :: "handle \<Rightarrow> address \<Rightarrow> state \<Rightarrow> state" where
  "allow h account s = grant h account s"

definition emit :: "event \<Rightarrow> state \<Rightarrow> state" where
  "emit ev s = s\<lparr>events := events s @ [ev]\<rparr>"

text \<open>
  \<open>addPurchase\<close> returns the library calls it made and either the error it reverted with
  or the state it leaves. The body after the three verifications follows the source line
  by line: push, \<open>index = length - 1\<close>, the storage reference \<open>p\<close>, six grants, the event.
\<close>

definition store_purchase :: "env \<Rightarrow> state \<Rightarrow> string \<Rightarrow> handle \<Rightarrow> handle \<Rightarrow> handle
    \<Rightarrow> fhe_call list \<times> state" where
  "store_purchase e s itm uid qty amt =
     (let s1 = s\<lparr>purchasesByMerchant := (purchasesByMerchant s)
                 (msg_sender e := purchasesByMerchant s (msg_sender e) @
                    [\<lparr>userId = uid, item = itm, quantity = qty, amount = amt,
                      timestamp = ucast (block_timestamp e)\<rparr>])\<rparr>;
          index = length (purchasesByMerchant s1 (msg_sender e)) - 1;
          p = purchasesByMerchant s1 (msg_sender e) ! index;
          s2 = allowThis e (userId p) s1;
          s3 = allow (userId p) (msg_sender e) s2;
          s4 = allowThis e (quantity p) s3;
          s5 = allow (quantity p) (msg_sender e) s4;
          s6 = allowThis e (amount p) s5;
          s7 = allow (amount p) (msg_sender e) s6;
          s8 = emit (PurchaseAdded (msg_sender e) index itm (ucast (block_timestamp e))) s7
      in ([AllowThis (userId p), Allow (userId p) (msg_sender e),
           AllowThis (quantity p), Allow (quantity p) (msg_sender e),
           AllowThis (amount p), Allow (amount p) (msg_sender e)], s8))"

definition addPurchase :: "env \<Rightarrow> state \<Rightarrow> string \<Rightarrow> 256 word \<Rightarrow> 256 word \<Rightarrow> 256 word
    \<Rightarrow> bytes \<Rightarrow> fhe_call list \<times> (error + state)" where
  "addPurchase e s itm userIdExt quantityExt amountExt inputProof =
     (if length itm = 0 \<or> length itm > 64 then ([], Inl InvalidItem)
      else case fromExternal e Euint32 userIdExt inputProof of
        None \<Rightarrow> ([FromExternal Euint32 userIdExt inputProof], Inl InvalidProof)
      | Some uid \<Rightarrow>
         (case fromExternal e Euint32 quantityExt inputProof of
            None \<Rightarrow> ([FromExternal Euint32 userIdExt inputProof,
                       FromExternal Euint32 quantityExt inputProof], Inl InvalidProof)
          | Some qty \<Rightarrow>
             (case fromExternal e Euint64 amountExt inputProof of
                None \<Rightarrow> ([FromExternal Euint32 userIdExt inputProof,
                           FromExternal Euint32 quantityExt inputProof,
                           FromExternal Euint64 amountExt inputProof], Inl InvalidProof)
              | Some amt \<Rightarrow>
                 (case store_purchase e s itm uid qty amt of
                    (calls, s') \<Rightarrow>
                      ([FromExternal Euint32 userIdExt inputProof,
                        FromExternal Euint32 quantityExt inputProof,
                        FromExternal Euint64 amountExt inputProof] @ calls, Inr s')))))"

definition getPurchaseCount :: "state \<Rightarrow> address \<Rightarrow> nat" where
  "getPurchaseCount s merchant = length (purchasesByMerchant s merchant)"

definition getPurchase :: "state \<Rightarrow> address \<Rightarrow> nat
    \<Rightarrow> error + (handle \<times> string \<times> handle \<times> handle \<times> 64 word)" where
  "getPurchase s merchant index =
     (if index \<ge> length (purchasesByMerchant s merchant) then Inl InvalidIndex
      else let p = purchasesByMerchant s merchant ! index
           in Inr (userId p, item p, quantity p, amount p, timestamp p))"

section \<open>Transactions\<close>

text \<open>
  The external interface of the contract: a call, the data it returns (\<open>addPurchase\<close>
  declares no return value), and the state after it. View functions leave the state as it
  is. A transaction that reverts leaves the state it started from.
\<close>

datatype call =
  AddPurchase string "256 word" "256 word" "256 word" bytes
| GetPurchaseCount address
| GetPurchase address nat

datatype retdata =
  RetNone
| RetUint nat
| RetPurchase handle string handle handle "64 word"

fun exec :: "env \<Rightarrow> state \<Rightarrow> call \<Rightarrow> fhe_call list \<times> (error + retdata \<times> state)" where
  "exec e s (AddPurchase itm u q a pr) =
     (case addPurchase e s itm u q a pr of
        (calls, Inl er) \<Rightarrow> (calls, Inl er)
      | (calls, Inr s') \<Rightarrow> (calls, Inr (RetNone, s')))"
| "exec e s (GetPurchaseCount merchant) = ([], Inr (RetUint (getPurchaseCount s merchant), s))"
| "exec e s (GetPurchase merchant index) =
     ([], case getPurchase s merchant index of
            Inl er \<Rightarrow> Inl er
          | Inr (u, itm, q, a, t) \<Rightarrow> Inr (RetPurchase u itm q a t, s))"

definition apply_tx :: "state \<Rightarrow> env \<times> call \<Rightarrow> state" where
  "apply_tx s tx = (case snd (exec (fst tx) s (snd tx)) of Inl er \<Rightarrow> s | Inr (r, s') \<Rightarrow> s')"

fun run :: "state \<Rightarrow> (env \<times> call) list \<Rightarrow> state" where
  "run s [] = s"
| "run s (tx # txs) = run (apply_tx s tx) txs"

text \<open>
  The number of transactions of a run that are calls of \<open>addPurchase\<close> sent by \<open>merchant\<close>
  and that do not revert.
\<close>

fun successful_appends :: "address \<Rightarrow> state \<Rightarrow> (env \<times> call) list \<Rightarrow> nat" where
  "successful_appends merchant s [] = 0"
| "successful_appends merchant s (tx # txs) =
     (case (snd tx, snd (exec (fst tx) s (snd tx))) of
        (AddPurchase itm u q a pr, Inr r) \<Rightarrow> (if msg_sender (fst tx) = merchant then 1 else 0)
      | _ \<Rightarrow> 0)
     + successful_appends merchant (apply_tx s tx) txs"

fun ev_merchant :: "event \<Rightarrow> address" where
  "ev_merchant (PurchaseAdded merchant index itm t) = merchant"

fun ev_index :: "event \<Rightarrow> nat" where
  "ev_index (PurchaseAdded merchant index itm t) = index"

fun is_grant :: "fhe_call \<Rightarrow> bool" where
  "is_grant (FromExternal t x pr) = False"
| "is_grant (AllowThis h) = True"
| "is_grant (Allow h account) = True"

section \<open>The records view of the frontend\<close>

text \<open>
  The component PurchaseRecords loads the connected account's records: it reads the count,
  caps it at \<open>MAX_TO_LOAD\<close>, builds the indices \<open>purchaseCount - 1 - i\<close> in a loop, reads
  each purchase with \<open>getPurchase\<close> and keeps the rows in the order of the indices.
  The values are \<open>bigint\<close>s, integers here. All reads are taken on one state of the
  contract. \<open>Promise.all\<close> rejects when one of the reads does.
\<close>

record RecordRow =
  row_index :: int
  row_item :: string
  row_timestamp :: int
  userIdHandle :: handle
  quantityHandle :: handle
  amountHandle :: handle

definition MAX_TO_LOAD :: int where
  "MAX_TO_LOAD = 200"

function indices_loop :: "int \<Rightarrow> int \<Rightarrow> int \<Rightarrow> int list \<Rightarrow> int list" where
  "indices_loop purchaseCount capped i indices =
     (if i < capped
      then indices_loop purchaseCount capped (i + 1) (indices @ [purchaseCount - 1 - i])
      else indices)"
  by pat_completeness auto
termination
  by (relation "measure (\<lambda>(purchaseCount, capped, i, indices). nat (capped - i))") auto

declare indices_loop.simps [simp del]

fun promise_all :: "(error + 'a) list \<Rightarrow> error + 'a list" where
  "promise_all [] = Inr []"
| "promise_all (r # rs) =
     (case r of
        Inl er \<Rightarrow> Inl er
      | Inr x \<Rightarrow> (case promise_all rs of Inl er \<Rightarrow> Inl er | Inr xs \<Rightarrow> Inr (x # xs)))"

definition load_row :: "state \<Rightarrow> address \<Rightarrow> int \<Rightarrow> error + RecordRow" where
  "load_row s address idx =
     (case getPurchase s address (nat idx) of
        Inl er \<Rightarrow> Inl er
      | Inr (p0, p1, p2, p3, p4) \<Rightarrow>
          Inr \<lparr>row_index = idx, row_item = p1, row_timestamp = uint p4,
               userIdHandle = p0, quantityHandle = p2, amountHandle = p3\<rparr>)"

definition load :: "state \<Rightarrow> address \<Rightarrow> error + RecordRow list" where
  "load s address =
     (let purchaseCount = int (getPurchaseCount s address);
          capped = (if purchaseCount > MAX_TO_LOAD then MAX_TO_LOAD else purchaseCount);
          indices = indices_loop purchaseCount capped 0 []
      in promise_all (map (load_row s address) indices))"

section \<open>Concrete inputs\<close>

definition alice :: address where
  "alice = 1001"

definition bob :: address where
  "bob = 2002"

definition accept_all :: "fhe_type \<Rightarrow> 256 word \<Rightarrow> bytes \<Rightarrow> handle option" where
  "accept_all t x pr = Some x"

definition reject_all :: "fhe_type \<Rightarrow> 256 word \<Rightarrow> bytes \<Rightarrow> handle option" where
  "reject_all t x pr = None"

definition env_alice :: env where
  "env_alice = \<lparr>address_this = 77, msg_sender = alice, block_timestamp = 1700000000,
                 fromExternal = accept_all\<rparr>"

definition env_bob :: env where
  "env_bob = \<lparr>address_this = 77, msg_sender = bob, block_timestamp = 1700000012,
               fromExternal = accept_all\<rparr>"

definition env_bad_proof :: env where
  "env_bad_proof = \<lparr>address_this = 77, msg_sender = alice, block_timestamp = 1700000000,
                     fromExternal = reject_all\<rparr>"

text \<open>The indices that the events of a state carry for a merchant, in the order of emission.\<close>

definition event_indices :: "state \<Rightarrow> address \<Rightarrow> nat list" where
  "event_indices s merchant =
     map ev_index (filter (\<lambda>ev. ev_merchant ev = merchant) (events s))"

definition txs_example :: "(env \<times> call) list" where
  "txs_example =
     [(env_alice, AddPurchase ''Coffee'' 1 2 3 []),
      (env_bob, AddPurchase ''Tea'' 4 5 6 []),
      (env_alice, AddPurchase [] 7 8 9 []),
      (env_alice, AddPurchase ''Milk'' 7 8 9 []),
      (env_alice, AddPurchase ''Bread'' 10 11 12 [])]"

section \<open>Facts about the write path\<close>

lemma store_purchase_purchases:
  "purchasesByMerchant (snd (store_purchase e s itm uid qty amt)) =
     (purchasesByMerchant s)(msg_sender e := purchasesByMerchant s (msg_sender e) @
        [\<lparr>userId = uid, item = itm, quantity = qty, amount = amt,
          timestamp = ucast (block_timestamp e)\<rparr>])"
  by (simp add: store_purchase_def Let_def emit_def allow_def allowThis_def grant_def)

lemma store_purchase_acl:
  "acl (snd (store_purchase e s itm uid qty amt)) =
     acl s \<union> {uid, qty, amt} \<times> {address_this e, msg_sender e}"
  by (auto simp add: store_purchase_def Let_def emit_def allow_def allowThis_def grant_def)

lemma store_purchase_events:
  "events (snd (store_purchase e s itm uid qty amt)) =
     events s @ [PurchaseAdded (msg_sender e) (length (purchasesByMerchant s (msg_sender e))) itm
                   (ucast (block_timestamp e))]"
  by (simp add: store_purchase_def Let_def emit_def allow_def allowThis_def grant_def)

lemma store_purchase_calls:
  "fst (store_purchase e s itm uid qty amt) =
     [AllowThis uid, Allow uid (msg_sender e), AllowThis qty, Allow qty (msg_sender e),
      AllowThis amt, Allow amt (msg_sender e)]"
  by (simp add: store_purchase_def Let_def)

lemma addPurchase_Inr:
  "snd (addPurchase e s itm u q a pr) = Inr s' \<longleftrightarrow>
     (0 < length itm \<and> length itm \<le> 64 \<and>
      (\<exists>uid qty amt. fromExternal e Euint32 u pr = Some uid \<and>
         fromExternal e Euint32 q pr = Some qty \<and> fromExternal e Euint64 a pr = Some amt \<and>
         s' = snd (store_purchase e s itm uid qty amt)))"
  by (auto simp add: addPurchase_def split: option.splits prod.splits)

lemma addPurchase_eq:
  "addPurchase e s itm u q a pr =
     (if length itm = 0 \<or> 64 < length itm then ([], Inl InvalidItem)
      else if fromExternal e Euint32 u pr = None
        then ([FromExternal Euint32 u pr], Inl InvalidProof)
      else if fromExternal e Euint32 q pr = None
        then ([FromExternal Euint32 u pr, FromExternal Euint32 q pr], Inl InvalidProof)
      else if fromExternal e Euint64 a pr = None
        then ([FromExternal Euint32 u pr, FromExternal Euint32 q pr,
               FromExternal Euint64 a pr], Inl InvalidProof)
      else ([FromExternal Euint32 u pr, FromExternal Euint32 q pr, FromExternal Euint64 a pr] @
              fst (store_purchase e s itm (the (fromExternal e Euint32 u pr))
                     (the (fromExternal e Euint32 q pr)) (the (fromExternal e Euint64 a pr))),
            Inr (snd (store_purchase e s itm (the (fromExternal e Euint32 u pr))
                     (the (fromExternal e Euint32 q pr)) (the (fromExternal e Euint64 a pr))))))"
  by (auto simp add: addPurchase_def split: option.splits prod.splits)

lemma apply_tx_AddPurchase:
  "apply_tx s (e, AddPurchase itm u q a pr) =
     (if 0 < length itm \<and> length itm \<le> 64 \<and> fromExternal e Euint32 u pr \<noteq> None \<and>
         fromExternal e Euint32 q pr \<noteq> None \<and> fromExternal e Euint64 a pr \<noteq> None
      then snd (store_purchase e s itm (the (fromExternal e Euint32 u pr))
                  (the (fromExternal e Euint32 q pr)) (the (fromExternal e Euint64 a pr)))
      else s)"
  by (auto simp add: apply_tx_def addPurchase_eq)

section \<open>Facts about runs of transactions\<close>

lemma apply_tx_view [simp]:
  "apply_tx s (e, GetPurchaseCount merchant) = s"
  "apply_tx s (e, GetPurchase merchant i) = s"
  by (auto simp add: apply_tx_def split: sum.splits)

lemma apply_tx_cases:
  "apply_tx s tx = s \<or>
   (\<exists>itm uid qty amt. apply_tx s tx = snd (store_purchase (fst tx) s itm uid qty amt))"
proof (cases tx)
  case (Pair e c)
  then show ?thesis
    by (cases c) (auto simp add: apply_tx_AddPurchase)
qed

lemma apply_tx_prefix:
  "prefix (purchasesByMerchant s merchant) (purchasesByMerchant (apply_tx s tx) merchant)"
  using apply_tx_cases [of s tx] by (auto simp add: store_purchase_purchases)

lemma run_prefix:
  "prefix (purchasesByMerchant s merchant) (purchasesByMerchant (run s txs) merchant)"
proof (induction txs arbitrary: s)
  case Nil
  then show ?case by simp
next
  case (Cons tx txs)
  have "prefix (purchasesByMerchant s merchant) (purchasesByMerchant (apply_tx s tx) merchant)"
    by (rule apply_tx_prefix)
  also have "prefix \<dots> (purchasesByMerchant (run (apply_tx s tx) txs) merchant)"
    by (rule Cons.IH)
  finally show ?case by simp
qed

lemma apply_tx_event_indices:
  assumes "\<forall>merchant. event_indices s merchant = [0..<getPurchaseCount s merchant]"
  shows "event_indices (apply_tx s tx) merchant = [0..<getPurchaseCount (apply_tx s tx) merchant]"
  using apply_tx_cases [of s tx] assms
  by (auto simp add: event_indices_def store_purchase_purchases store_purchase_events
      getPurchaseCount_def)

lemma run_event_indices:
  "\<forall>merchant. event_indices s merchant = [0..<getPurchaseCount s merchant] \<Longrightarrow>
   event_indices (run s txs) merchant = [0..<getPurchaseCount (run s txs) merchant]"
proof (induction txs arbitrary: s merchant)
  case Nil
  then show ?case by simp
next
  case (Cons tx txs)
  have "\<forall>merchant. event_indices (apply_tx s tx) merchant =
          [0..<getPurchaseCount (apply_tx s tx) merchant]"
    using apply_tx_event_indices [OF Cons.prems] by blast
  then show ?case using Cons.IH by simp
qed

lemma getPurchase_accepts:
  "{i. \<exists>r. getPurchase s merchant i = Inr r} = {..<getPurchaseCount s merchant}"
  by (auto simp add: getPurchase_def getPurchaseCount_def Let_def)

lemma apply_tx_count:
  "getPurchaseCount (apply_tx s tx) merchant =
     getPurchaseCount s merchant + successful_appends merchant s [tx]"
proof (cases tx)
  case (Pair e c)
  then show ?thesis
    by (cases c)
       (auto simp add: apply_tx_AddPurchase addPurchase_eq getPurchaseCount_def
          store_purchase_purchases split: sum.splits)
qed

lemma successful_appends_Cons:
  "successful_appends merchant s (tx # txs) =
     successful_appends merchant s [tx] + successful_appends merchant (apply_tx s tx) txs"
  by simp

lemma run_count:
  "getPurchaseCount (run s txs) merchant =
     getPurchaseCount s merchant + successful_appends merchant s txs"
proof (induction txs arbitrary: s)
  case Nil
  then show ?case by simp
next
  case (Cons tx txs)
  show ?case
    by (simp only: run.simps Cons.IH apply_tx_count successful_appends_Cons [of merchant s tx txs])
qed

lemma run_example_alice:
  "purchasesByMerchant (run init_state txs_example) alice =
     [\<lparr>userId = 1, item = ''Coffee'', quantity = 2, amount = 3, timestamp = 1700000000\<rparr>,
      \<lparr>userId = 7, item = ''Milk'', quantity = 8, amount = 9, timestamp = 1700000000\<rparr>,
      \<lparr>userId = 10, item = ''Bread'', quantity = 11, amount = 12, timestamp = 1700000000\<rparr>]"
  by (simp add: txs_example_def apply_tx_AddPurchase env_alice_def env_bob_def accept_all_def
      store_purchase_purchases init_state_def alice_def bob_def)

section \<open>Facts about the records view\<close>

lemma indices_loop_eq:
  "indices_loop purchaseCount capped i indices =
     indices @ map (\<lambda>j. purchaseCount - 1 - j) [i..capped - 1]"
proof (induction purchaseCount capped i indices rule: indices_loop.induct)
  case (1 purchaseCount capped i indices)
  show ?case
  proof (cases "i < capped")
    case True
    then have "[i..capped - 1] = i # [i + 1..capped - 1]"
      by (simp add: upto_rec1)
    then show ?thesis
      using True "1.IH" by (simp add: indices_loop.simps [of purchaseCount capped i indices])
  next
    case False
    then show ?thesis
      by (simp add: indices_loop.simps [of purchaseCount capped i indices])
  qed
qed

lemma upto_as_upt: "[0..int n - 1] = map int [0..<n]"
proof (induction n)
  case 0
  then show ?case by simp
next
  case (Suc n)
  have "[0..int (Suc n) - 1] = [0..int n - 1] @ [int n]"
    by (simp add: upto_rec2)
  then show ?case using Suc by simp
qed

lemma promise_all_map_Inr:
  "(\<And>x. x \<in> set xs \<Longrightarrow> f x = Inr (g x)) \<Longrightarrow> promise_all (map f xs) = Inr (map g xs)"
  by (induction xs) auto

lemma load_row_in_range:
  "k < getPurchaseCount s merchant \<Longrightarrow>
     load_row s merchant (int k) =
       Inr \<lparr>row_index = int k,
            row_item = item (purchasesByMerchant s merchant ! k),
            row_timestamp = uint (timestamp (purchasesByMerchant s merchant ! k)),
            userIdHandle = userId (purchasesByMerchant s merchant ! k),
            quantityHandle = quantity (purchasesByMerchant s merchant ! k),
            amountHandle = amount (purchasesByMerchant s merchant ! k)\<rparr>"
  by (simp add: load_row_def getPurchase_def getPurchaseCount_def Let_def)

lemma load_eq:
  "load s merchant =
     Inr (map (\<lambda>k. \<lparr>row_index = int (getPurchaseCount s merchant - Suc k),
                    row_item = item (purchasesByMerchant s merchant ! (getPurchaseCount s merchant - Suc k)),
                    row_timestamp = uint (timestamp (purchasesByMerchant s merchant ! (getPurchaseCount s merchant - Suc k))),
                    userIdHandle = userId (purchasesByMerchant s merchant ! (getPurchaseCount s merchant - Suc k)),
                    quantityHandle = quantity (purchasesByMerchant s merchant ! (getPurchaseCount s merchant - Suc k)),
                    amountHandle = amount (purchasesByMerchant s merchant ! (getPurchaseCount s merchant - Suc k))\<rparr>)
            [0..<min (getPurchaseCount s merchant) 200])"
proof -
  let ?n = "getPurchaseCount s merchant"
  let ?c = "min ?n 200"
  have capped: "(if int ?n > MAX_TO_LOAD then MAX_TO_LOAD else int ?n) = int ?c"
    by (simp add: MAX_TO_LOAD_def min_def)
  have ind: "indices_loop (int ?n) (int ?c) 0 [] = map (\<lambda>k. int (?n - Suc k)) [0..<?c]"
    by (simp add: indices_loop_eq upto_as_upt comp_def of_nat_diff Suc_le_eq)
  have "load s merchant = promise_all (map (load_row s merchant) (map (\<lambda>k. int (?n - Suc k)) [0..<?c]))"
    by (simp only: load_def Let_def capped ind)
  also have "\<dots> = promise_all (map (\<lambda>k. load_row s merchant (int (?n - Suc k))) [0..<?c])"
    by (simp add: comp_def)
  also have "\<dots> = Inr (map (\<lambda>k. \<lparr>row_index = int (?n - Suc k),
                    row_item = item (purchasesByMerchant s merchant ! (?n - Suc k)),
                    row_timestamp = uint (timestamp (purchasesByMerchant s merchant ! (?n - Suc k))),
                    userIdHandle = userId (purchasesByMerchant s merchant ! (?n - Suc k)),
                    quantityHandle = quantity (purchasesByMerchant s merchant ! (?n - Suc k)),
                    amountHandle = amount (purchasesByMerchant s merchant ! (?n - Suc k))\<rparr>)
            [0..<?c])"
  proof (rule promise_all_map_Inr)
    fix k
    assume "k \<in> set [0..<?c]"
    then have "?n - Suc k < ?n"
      by simp
    then show "load_row s merchant (int (?n - Suc k)) =
        Inr \<lparr>row_index = int (?n - Suc k),
                    row_item = item (purchasesByMerchant s merchant ! (?n - Suc k)),
                    row_timestamp = uint (timestamp (purchasesByMerchant s merchant ! (?n - Suc k))),
                    userIdHandle = userId (purchasesByMerchant s merchant ! (?n - Suc k)),
                    quantityHandle = quantity (purchasesByMerchant s merchant ! (?n - Suc k)),
                    amountHandle = amount (purchasesByMerchant s merchant ! (?n - Suc k))\<rparr>"
      by (rule load_row_in_range)
  qed
  finally show ?thesis .
qed

section \<open>The claims\<close>

text \<open>
  C1, as it holds of the code. For every caller and every item, \<open>addPurchase\<close> fails with
  \<open>InvalidItem\<close> if and only if the item's byte length is 0 or greater than 64.
  Otherwise, when the library accepts the three external inputs with the proof, it stores
  the record at the next index of the caller (the caller's count before the call) and
  emits \<open>PurchaseAdded\<close> with the caller, that index, the item and the timestamp it
  stored; when the library rejects one of the inputs, the call reverts with the library's
  error.
\<close>

theorem addPurchase_InvalidItem_iff:
  "(snd (addPurchase e s itm u q a pr) = Inl InvalidItem \<longleftrightarrow> length itm = 0 \<or> 64 < length itm) \<and>
   (0 < length itm \<and> length itm \<le> 64 \<and> fromExternal e Euint32 u pr = Some uid \<and>
    fromExternal e Euint32 q pr = Some qty \<and> fromExternal e Euint64 a pr = Some amt \<longrightarrow>
      (\<exists>s'. snd (addPurchase e s itm u q a pr) = Inr s' \<and>
         purchasesByMerchant s' (msg_sender e) = purchasesByMerchant s (msg_sender e) @
           [\<lparr>userId = uid, item = itm, quantity = qty, amount = amt,
             timestamp = ucast (block_timestamp e)\<rparr>] \<and>
         getPurchase s' (msg_sender e) (getPurchaseCount s (msg_sender e)) =
           Inr (uid, itm, qty, amt, ucast (block_timestamp e)) \<and>
         events s' = events s @
           [PurchaseAdded (msg_sender e) (getPurchaseCount s (msg_sender e)) itm
              (ucast (block_timestamp e))])) \<and>
   (0 < length itm \<and> length itm \<le> 64 \<and>
    (fromExternal e Euint32 u pr = None \<or> fromExternal e Euint32 q pr = None \<or>
     fromExternal e Euint64 a pr = None) \<longrightarrow>
      snd (addPurchase e s itm u q a pr) = Inl InvalidProof)"
proof (intro conjI impI)
  show "snd (addPurchase e s itm u q a pr) = Inl InvalidItem \<longleftrightarrow> length itm = 0 \<or> 64 < length itm"
    by (auto simp add: addPurchase_def split: option.splits prod.splits)
next
  assume h: "0 < length itm \<and> length itm \<le> 64 \<and> fromExternal e Euint32 u pr = Some uid \<and>
    fromExternal e Euint32 q pr = Some qty \<and> fromExternal e Euint64 a pr = Some amt"
  let ?s' = "snd (store_purchase e s itm uid qty amt)"
  have r: "snd (addPurchase e s itm u q a pr) = Inr ?s'"
    using h by (simp add: addPurchase_Inr)
  have g: "getPurchase ?s' (msg_sender e) (getPurchaseCount s (msg_sender e)) =
           Inr (uid, itm, qty, amt, ucast (block_timestamp e))"
    by (simp add: getPurchase_def getPurchaseCount_def store_purchase_purchases)
  show "\<exists>s'. snd (addPurchase e s itm u q a pr) = Inr s' \<and>
         purchasesByMerchant s' (msg_sender e) = purchasesByMerchant s (msg_sender e) @
           [\<lparr>userId = uid, item = itm, quantity = qty, amount = amt,
             timestamp = ucast (block_timestamp e)\<rparr>] \<and>
         getPurchase s' (msg_sender e) (getPurchaseCount s (msg_sender e)) =
           Inr (uid, itm, qty, amt, ucast (block_timestamp e)) \<and>
         events s' = events s @
           [PurchaseAdded (msg_sender e) (getPurchaseCount s (msg_sender e)) itm
              (ucast (block_timestamp e))]"
    using r g by (simp add: store_purchase_purchases store_purchase_events getPurchaseCount_def)
next
  assume "0 < length itm \<and> length itm \<le> 64 \<and>
    (fromExternal e Euint32 u pr = None \<or> fromExternal e Euint32 q pr = None \<or>
     fromExternal e Euint64 a pr = None)"
  then show "snd (addPurchase e s itm u q a pr) = Inl InvalidProof"
    by (auto simp add: addPurchase_def split: option.splits prod.splits)
qed

theorem addPurchase_InvalidItem_iff_witness:
  "0 < length ''Coffee'' \<and> length ''Coffee'' \<le> 64 \<and>
   fromExternal env_alice Euint32 1 [] = Some 1 \<and>
   fromExternal env_alice Euint32 2 [] = Some 2 \<and>
   fromExternal env_alice Euint64 3 [] = Some 3 \<and>
   snd (addPurchase env_alice init_state ''Coffee'' 1 2 3 []) \<noteq> Inl InvalidItem \<and>
   (\<exists>s'. snd (addPurchase env_alice init_state ''Coffee'' 1 2 3 []) = Inr s' \<and>
      purchasesByMerchant s' alice =
        [\<lparr>userId = 1, item = ''Coffee'', quantity = 2, amount = 3, timestamp = 1700000000\<rparr>] \<and>
      getPurchase s' alice 0 = Inr (1, ''Coffee'', 2, 3, 1700000000) \<and>
      events s' = [PurchaseAdded alice 0 ''Coffee'' 1700000000]) \<and>
   snd (addPurchase env_alice init_state [] 1 2 3 []) = Inl InvalidItem \<and>
   snd (addPurchase env_bad_proof init_state ''Coffee'' 1 2 3 []) = Inl InvalidProof"
  using addPurchase_InvalidItem_iff
    [where e = env_alice and s = init_state and itm = "''Coffee''" and u = 1 and q = 2
       and a = 3 and pr = "[]" and uid = 1 and qty = 2 and amt = 3]
    addPurchase_InvalidItem_iff
    [where e = env_alice and s = init_state and itm = "[]" and u = 1 and q = 2
       and a = 3 and pr = "[]" and uid = 1 and qty = 2 and amt = 3]
    addPurchase_InvalidItem_iff
    [where e = env_bad_proof and s = init_state and itm = "''Coffee''" and u = 1 and q = 2
       and a = 3 and pr = "[]" and uid = 1 and qty = 2 and amt = 3]
  by (simp add: env_alice_def env_bad_proof_def accept_all_def reject_all_def init_state_def
      getPurchaseCount_def)

text \<open>
  A valid length alone does not store a record: with a proof the library rejects, the
  call reverts at the first verification and the caller's count stays 0.
\<close>

theorem addPurchase_valid_item_counterexample:
  "0 < length ''Coffee'' \<and> length ''Coffee'' \<le> 64 \<and>
   addPurchase env_bad_proof init_state ''Coffee'' 1 2 3 [] =
     ([FromExternal Euint32 1 []], Inl InvalidProof) \<and>
   getPurchaseCount (apply_tx init_state (env_bad_proof, AddPurchase ''Coffee'' 1 2 3 [])) alice = 0"
  by (simp add: addPurchase_eq apply_tx_AddPurchase env_bad_proof_def reject_all_def
      getPurchaseCount_def init_state_def)

text \<open>
  C2. For every merchant and every sequence of transactions, the merchant's records before
  the sequence are a prefix of the records after it: none is changed or removed, and the
  count grows by the number of the merchant's calls of \<open>addPurchase\<close> that did not
  revert. From the initial state, with \<open>N\<close> such calls in the sequence, the indices
  carried by the merchant's \<open>PurchaseAdded\<close> events are, in order, \<open>0, 1, ..., N - 1\<close>,
  whatever other merchants' transactions lie in between; \<open>N\<close> is the merchant's count,
  and the indices at which \<open>getPurchase\<close> answers are exactly those below the count.
\<close>

theorem records_append_only_dense:
  "prefix (purchasesByMerchant s merchant) (purchasesByMerchant (run s txs) merchant) \<and>
   getPurchaseCount (run s txs) merchant =
     getPurchaseCount s merchant + successful_appends merchant s txs \<and>
   map ev_index (filter (\<lambda>ev. ev_merchant ev = merchant) (events (run init_state txs))) =
     [0..<successful_appends merchant init_state txs] \<and>
   map ev_index (filter (\<lambda>ev. ev_merchant ev = merchant) (events (run init_state txs))) =
     [0..<getPurchaseCount (run init_state txs) merchant] \<and>
   {i. \<exists>r. getPurchase (run s txs) merchant i = Inr r} =
     {..<getPurchaseCount (run s txs) merchant}"
proof -
  have z: "getPurchaseCount init_state merchant = 0"
    by (simp add: init_state_def getPurchaseCount_def)
  have n: "getPurchaseCount (run init_state txs) merchant =
             successful_appends merchant init_state txs"
    by (simp add: z run_count [of init_state txs merchant])
  have "\<forall>merchant. event_indices init_state merchant = [0..<getPurchaseCount init_state merchant]"
    by (simp add: event_indices_def init_state_def getPurchaseCount_def)
  then have "event_indices (run init_state txs) merchant =
               [0..<getPurchaseCount (run init_state txs) merchant]"
    by (rule run_event_indices)
  then have c: "map ev_index (filter (\<lambda>ev. ev_merchant ev = merchant)
                  (events (run init_state txs))) =
     [0..<getPurchaseCount (run init_state txs) merchant]"
    by (simp only: event_indices_def)
  then have a: "map ev_index (filter (\<lambda>ev. ev_merchant ev = merchant)
                  (events (run init_state txs))) =
     [0..<successful_appends merchant init_state txs]"
    by (simp only: n)
  show ?thesis
    using run_prefix [of s merchant txs] run_count [of s txs merchant] a c
      getPurchase_accepts [of "run s txs" merchant]
    by blast
qed

text \<open>
  A run with two merchants and a reverting call in between: the first merchant's three
  appends carry the indices 0, 1, 2.
\<close>

theorem records_append_only_dense_witness:
  "successful_appends alice init_state txs_example = 3 \<and>
   map ev_index (filter (\<lambda>ev. ev_merchant ev = alice) (events (run init_state txs_example))) =
     [0, 1, 2] \<and>
   getPurchaseCount (run init_state txs_example) alice = 3"
proof -
  have c: "getPurchaseCount (run init_state txs_example) alice = 3"
    by (simp add: getPurchaseCount_def run_example_alice)
  have z: "getPurchaseCount init_state alice = 0"
    by (simp add: getPurchaseCount_def init_state_def)
  have u: "[0..<3] = [0, 1, 2::nat]"
    by (simp add: upt_rec)
  show ?thesis
    using records_append_only_dense
      [where s = init_state and txs = txs_example and merchant = alice] c z u
    by simp
qed

text \<open>
  C3. A successful \<open>addPurchase\<close> makes exactly six grant calls, \<open>allowThis\<close> and
  \<open>allow\<close> to the caller for each of the three handles of the record it stored, and
  the grants it adds to the registry are exactly those of the three handles to the
  contract and to the caller.
\<close>

theorem addPurchase_grants_store_and_owner:
  "addPurchase e s itm u q a pr = (calls, Inr s') \<Longrightarrow>
     \<exists>uid qty amt.
       fromExternal e Euint32 u pr = Some uid \<and> fromExternal e Euint32 q pr = Some qty \<and>
       fromExternal e Euint64 a pr = Some amt \<and>
       last (purchasesByMerchant s' (msg_sender e)) =
         \<lparr>userId = uid, item = itm, quantity = qty, amount = amt,
          timestamp = ucast (block_timestamp e)\<rparr> \<and>
       filter is_grant calls =
         [AllowThis uid, Allow uid (msg_sender e), AllowThis qty, Allow qty (msg_sender e),
          AllowThis amt, Allow amt (msg_sender e)] \<and>
       acl s' = acl s \<union> {uid, qty, amt} \<times> {address_this e, msg_sender e}"
proof -
  assume h: "addPurchase e s itm u q a pr = (calls, Inr s')"
  then have "snd (addPurchase e s itm u q a pr) = Inr s'" by simp
  then obtain uid qty amt where
    f: "fromExternal e Euint32 u pr = Some uid" "fromExternal e Euint32 q pr = Some qty"
       "fromExternal e Euint64 a pr = Some amt"
    and s': "s' = snd (store_purchase e s itm uid qty amt)"
    and len: "0 < length itm" "length itm \<le> 64"
    unfolding addPurchase_Inr by blast
  have c: "calls = [FromExternal Euint32 u pr, FromExternal Euint32 q pr,
                    FromExternal Euint64 a pr] @ fst (store_purchase e s itm uid qty amt)"
    using h f len by (simp add: addPurchase_def split: prod.splits)
  have "filter is_grant calls =
         [AllowThis uid, Allow uid (msg_sender e), AllowThis qty, Allow qty (msg_sender e),
          AllowThis amt, Allow amt (msg_sender e)]"
    by (simp add: c store_purchase_calls)
  moreover have "acl s' = acl s \<union> {uid, qty, amt} \<times> {address_this e, msg_sender e}"
    by (simp only: s' store_purchase_acl)
  moreover have "last (purchasesByMerchant s' (msg_sender e)) =
         \<lparr>userId = uid, item = itm, quantity = qty, amount = amt,
          timestamp = ucast (block_timestamp e)\<rparr>"
    by (simp add: s' store_purchase_purchases)
  ultimately show ?thesis using f by blast
qed

theorem addPurchase_grants_store_and_owner_witness:
  "addPurchase env_alice init_state ''Coffee'' 1 2 3 [] =
     ([FromExternal Euint32 1 [], FromExternal Euint32 2 [], FromExternal Euint64 3 [],
       AllowThis 1, Allow 1 alice, AllowThis 2, Allow 2 alice, AllowThis 3, Allow 3 alice],
      Inr (apply_tx init_state (env_alice, AddPurchase ''Coffee'' 1 2 3 []))) \<and>
   acl (apply_tx init_state (env_alice, AddPurchase ''Coffee'' 1 2 3 [])) =
     {1, 2, 3} \<times> {77, alice}"
proof -
  let ?s1 = "apply_tx init_state (env_alice, AddPurchase ''Coffee'' 1 2 3 [])"
  have x: "addPurchase env_alice init_state ''Coffee'' 1 2 3 [] =
     ([FromExternal Euint32 1 [], FromExternal Euint32 2 [], FromExternal Euint64 3 [],
       AllowThis 1, Allow 1 alice, AllowThis 2, Allow 2 alice, AllowThis 3, Allow 3 alice],
      Inr ?s1)"
    by (simp add: addPurchase_eq apply_tx_AddPurchase store_purchase_calls env_alice_def
        accept_all_def)
  show ?thesis
    using addPurchase_grants_store_and_owner [OF x] x
    by (simp add: env_alice_def accept_all_def init_state_def)
qed

text \<open>
  C4. With an item that is empty or longer than 64 bytes, \<open>addPurchase\<close> fails with
  \<open>InvalidItem\<close> having made no call to the library. On every failure path no grant call
  was made and the transaction leaves the state, records and registry, as it was.
\<close>

theorem addPurchase_fails_fast:
  "(length itm = 0 \<or> 64 < length itm \<longrightarrow>
      addPurchase e s itm u q a pr = ([], Inl InvalidItem)) \<and>
   (snd (addPurchase e s itm u q a pr) = Inl er \<longrightarrow>
      filter is_grant (fst (addPurchase e s itm u q a pr)) = [] \<and>
      apply_tx s (e, AddPurchase itm u q a pr) = s)"
  by (auto simp add: addPurchase_def apply_tx_def split: option.splits prod.splits if_splits)

theorem addPurchase_fails_fast_witness:
  "64 < length (replicate 65 CHR ''x'') \<and>
   addPurchase env_alice init_state (replicate 65 CHR ''x'') 1 2 3 [] = ([], Inl InvalidItem) \<and>
   snd (addPurchase env_bad_proof init_state ''Coffee'' 1 2 3 []) = Inl InvalidProof \<and>
   filter is_grant (fst (addPurchase env_bad_proof init_state ''Coffee'' 1 2 3 [])) = [] \<and>
   apply_tx init_state (env_bad_proof, AddPurchase ''Coffee'' 1 2 3 []) = init_state"
  using addPurchase_fails_fast
    [where e = env_alice and s = init_state and itm = "replicate 65 CHR ''x''" and u = 1
       and q = 2 and a = 3 and pr = "[]" and er = InvalidItem]
    addPurchase_fails_fast
    [where e = env_bad_proof and s = init_state and itm = "''Coffee''" and u = 1
       and q = 2 and a = 3 and pr = "[]" and er = InvalidProof]
  by (simp add: addPurchase_def env_bad_proof_def reject_all_def)

text \<open>
  C5. For every merchant and index, \<open>getPurchase\<close> fails if and only if the index is at
  least the merchant's count, and then with \<open>InvalidIndex\<close>; otherwise it returns the
  fields of the stored record in the order user id handle, item, quantity handle, amount
  handle, timestamp. The call leaves the state as it was.
\<close>

theorem getPurchase_InvalidIndex_iff:
  "(getPurchase s merchant i = Inl InvalidIndex \<longleftrightarrow> getPurchaseCount s merchant \<le> i) \<and>
   (getPurchase s merchant i = Inl er \<longrightarrow> er = InvalidIndex) \<and>
   (i < getPurchaseCount s merchant \<longrightarrow>
      getPurchase s merchant i =
        Inr (userId (purchasesByMerchant s merchant ! i), item (purchasesByMerchant s merchant ! i),
             quantity (purchasesByMerchant s merchant ! i), amount (purchasesByMerchant s merchant ! i),
             timestamp (purchasesByMerchant s merchant ! i))) \<and>
   apply_tx s (e, GetPurchase merchant i) = s"
  by (auto simp add: getPurchase_def getPurchaseCount_def apply_tx_def Let_def split: sum.splits)

theorem getPurchase_InvalidIndex_iff_witness:
  "0 < getPurchaseCount (apply_tx init_state (env_alice, AddPurchase ''Coffee'' 1 2 3 [])) alice \<and>
   getPurchase (apply_tx init_state (env_alice, AddPurchase ''Coffee'' 1 2 3 [])) alice 0 =
     Inr (1, ''Coffee'', 2, 3, 1700000000) \<and>
   getPurchase (apply_tx init_state (env_alice, AddPurchase ''Coffee'' 1 2 3 [])) alice 1 =
     Inl InvalidIndex"
  using getPurchase_InvalidIndex_iff
    [where s = "apply_tx init_state (env_alice, AddPurchase ''Coffee'' 1 2 3 [])"
       and merchant = alice and i = 0 and er = InvalidIndex and e = env_alice]
    getPurchase_InvalidIndex_iff
    [where s = "apply_tx init_state (env_alice, AddPurchase ''Coffee'' 1 2 3 [])"
       and merchant = alice and i = 1 and er = InvalidIndex and e = env_alice]
  by (simp add: apply_tx_def addPurchase_def store_purchase_def Let_def env_alice_def
      accept_all_def init_state_def getPurchaseCount_def allow_def allowThis_def grant_def
      emit_def)

text \<open>
  C6. \<open>getPurchaseCount\<close> never fails and leaves the state as it was; it is 0 for a
  merchant without records; after any sequence of transactions from the initial state it
  is the number of the merchant's calls of \<open>addPurchase\<close> that did not revert; and when
  it is not 0 it is one more than the highest index at which \<open>getPurchase\<close> answers,
  while at 0 \<open>getPurchase\<close> answers at no index.
\<close>

theorem getPurchaseCount_counts_appends:
  "snd (exec e s (GetPurchaseCount merchant)) = Inr (RetUint (getPurchaseCount s merchant), s) \<and>
   (purchasesByMerchant s merchant = [] \<longrightarrow> getPurchaseCount s merchant = 0) \<and>
   getPurchaseCount init_state merchant = 0 \<and>
   getPurchaseCount (run init_state txs) merchant = successful_appends merchant init_state txs \<and>
   (0 < getPurchaseCount s merchant \<longrightarrow>
      getPurchaseCount s merchant = Suc (Max {i. \<exists>r. getPurchase s merchant i = Inr r})) \<and>
   (getPurchaseCount s merchant = 0 \<longrightarrow> {i. \<exists>r. getPurchase s merchant i = Inr r} = {})"
proof -
  have z: "getPurchaseCount init_state merchant = 0"
    by (simp add: init_state_def getPurchaseCount_def)
  have m: "getPurchaseCount s merchant = Suc (Max {i. \<exists>r. getPurchase s merchant i = Inr r})"
    if pos: "0 < getPurchaseCount s merchant"
  proof -
    obtain k where k: "getPurchaseCount s merchant = Suc k"
      using pos by (cases "getPurchaseCount s merchant") auto
    have "Max {..k} = k"
      by (rule Max_eqI) auto
    moreover have "{i. \<exists>r. getPurchase s merchant i = Inr r} = {..k}"
      by (simp only: getPurchase_accepts k lessThan_Suc_atMost)
    ultimately show ?thesis
      by (simp only: k)
  qed
  have c: "getPurchaseCount (run init_state txs) merchant =
             successful_appends merchant init_state txs"
    by (simp add: z run_count [of init_state txs merchant])
  have x: "snd (exec e s (GetPurchaseCount merchant)) =
             Inr (RetUint (getPurchaseCount s merchant), s)"
    by simp
  have n: "purchasesByMerchant s merchant = [] \<longrightarrow> getPurchaseCount s merchant = 0"
    by (simp add: getPurchaseCount_def)
  have e: "getPurchaseCount s merchant = 0 \<longrightarrow>
             {i. \<exists>r. getPurchase s merchant i = Inr r} = {}"
    using getPurchase_accepts [of s merchant] by auto
  show ?thesis
    using x n z c m e by blast
qed

theorem getPurchaseCount_counts_appends_witness:
  "0 < getPurchaseCount (run init_state txs_example) alice \<and>
   getPurchaseCount (run init_state txs_example) alice = 3 \<and>
   successful_appends alice init_state txs_example = 3 \<and>
   Max {i. \<exists>r. getPurchase (run init_state txs_example) alice i = Inr r} = 2 \<and>
   purchasesByMerchant init_state bob = [] \<and>
   getPurchaseCount init_state bob = 0 \<and>
   {i. \<exists>r. getPurchase init_state bob i = Inr r} = {}"
proof -
  have c: "getPurchaseCount (run init_state txs_example) alice = 3"
    by (simp add: getPurchaseCount_def run_example_alice)
  have b: "purchasesByMerchant init_state bob = []"
    by (simp add: init_state_def)
  show ?thesis
    using getPurchaseCount_counts_appends
      [where s = "run init_state txs_example" and txs = txs_example and merchant = alice]
      getPurchaseCount_counts_appends
      [where s = init_state and txs = txs_example and merchant = bob]
      c b
    by simp
qed

text \<open>
  C7, as it holds of the code. The records view takes no maximal count. For every state and merchant
  it loads the \<open>min count 200\<close> most recent records, the highest index first and the
  indices decreasing by one, each row holding the index and the item, timestamp and three
  handles exactly as \<open>getPurchase\<close> returns them; it never loads more than 200 rows.
\<close>

theorem load_most_recent_capped:
  "\<exists>rows. load s merchant = Inr rows \<and>
     rows = map (\<lambda>k. \<lparr>row_index = int (getPurchaseCount s merchant - Suc k),
                    row_item = item (purchasesByMerchant s merchant ! (getPurchaseCount s merchant - Suc k)),
                    row_timestamp = uint (timestamp (purchasesByMerchant s merchant ! (getPurchaseCount s merchant - Suc k))),
                    userIdHandle = userId (purchasesByMerchant s merchant ! (getPurchaseCount s merchant - Suc k)),
                    quantityHandle = quantity (purchasesByMerchant s merchant ! (getPurchaseCount s merchant - Suc k)),
                    amountHandle = amount (purchasesByMerchant s merchant ! (getPurchaseCount s merchant - Suc k))\<rparr>)
            [0..<min (getPurchaseCount s merchant) 200] \<and>
     length rows = min (getPurchaseCount s merchant) 200 \<and>
     map row_index rows =
       map (\<lambda>k. int (getPurchaseCount s merchant) - 1 - int k)
         [0..<min (getPurchaseCount s merchant) 200]"
proof -
  have "int (getPurchaseCount s merchant - Suc k) = int (getPurchaseCount s merchant) - 1 - int k"
    if "k < min (getPurchaseCount s merchant) 200" for k
    using that by simp
  then show ?thesis
    by (simp add: load_eq comp_def)
qed

text \<open>
  For a merchant with three records the view loads three rows, the most recent first; a
  listing of two of them cannot be asked for.
\<close>

theorem load_two_of_three_counterexample:
  "getPurchaseCount (run init_state txs_example) alice = 3 \<and>
   load (run init_state txs_example) alice =
     Inr [\<lparr>row_index = 2, row_item = ''Bread'', row_timestamp = 1700000000,
           userIdHandle = 10, quantityHandle = 11, amountHandle = 12\<rparr>,
          \<lparr>row_index = 1, row_item = ''Milk'', row_timestamp = 1700000000,
           userIdHandle = 7, quantityHandle = 8, amountHandle = 9\<rparr>,
          \<lparr>row_index = 0, row_item = ''Coffee'', row_timestamp = 1700000000,
           userIdHandle = 1, quantityHandle = 2, amountHandle = 3\<rparr>]"
proof -
  have c: "getPurchaseCount (run init_state txs_example) alice = 3"
    by (simp add: getPurchaseCount_def run_example_alice)
  have u: "[0..<3] = [0, 1, Suc 1]"
    by (simp add: upt_rec)
  show ?thesis
    by (simp add: load_eq c run_example_alice u)
qed

text \<open>
  C8. A successful \<open>addPurchase\<close> leaves every other merchant's count and every answer of
  \<open>getPurchase\<close> for that merchant as they were.
\<close>

theorem addPurchase_other_owners_unchanged:
  "snd (addPurchase e s itm u q a pr) = Inr s' \<Longrightarrow> merchant \<noteq> msg_sender e \<Longrightarrow>
     getPurchaseCount s' merchant = getPurchaseCount s merchant \<and>
     getPurchase s' merchant i = getPurchase s merchant i"
  by (auto simp add: addPurchase_Inr getPurchaseCount_def getPurchase_def store_purchase_purchases)

theorem addPurchase_other_owners_unchanged_witness:
  "snd (addPurchase env_bob (apply_tx init_state (env_alice, AddPurchase ''Coffee'' 1 2 3 []))
          ''Tea'' 4 5 6 []) =
     Inr (apply_tx (apply_tx init_state (env_alice, AddPurchase ''Coffee'' 1 2 3 []))
            (env_bob, AddPurchase ''Tea'' 4 5 6 [])) \<and>
   alice \<noteq> msg_sender env_bob \<and>
   getPurchaseCount (apply_tx (apply_tx init_state (env_alice, AddPurchase ''Coffee'' 1 2 3 []))
            (env_bob, AddPurchase ''Tea'' 4 5 6 [])) alice = 1 \<and>
   getPurchase (apply_tx (apply_tx init_state (env_alice, AddPurchase ''Coffee'' 1 2 3 []))
            (env_bob, AddPurchase ''Tea'' 4 5 6 [])) alice 0 = Inr (1, ''Coffee'', 2, 3, 1700000000)"
proof -
  let ?s1 = "apply_tx init_state (env_alice, AddPurchase ''Coffee'' 1 2 3 [])"
  let ?s2 = "apply_tx ?s1 (env_bob, AddPurchase ''Tea'' 4 5 6 [])"
  have r: "snd (addPurchase env_bob ?s1 ''Tea'' 4 5 6 []) = Inr ?s2"
    by (simp add: apply_tx_AddPurchase addPurchase_eq env_bob_def accept_all_def)
  have n: "alice \<noteq> msg_sender env_bob"
    by (simp add: alice_def bob_def env_bob_def)
  have c: "getPurchaseCount ?s1 alice = 1"
    by (simp add: apply_tx_AddPurchase env_alice_def accept_all_def getPurchaseCount_def
        store_purchase_purchases init_state_def)
  have g: "getPurchase ?s1 alice 0 = Inr (1, ''Coffee'', 2, 3, 1700000000)"
    by (simp add: apply_tx_AddPurchase env_alice_def accept_all_def getPurchase_def
        store_purchase_purchases init_state_def)
  show ?thesis
    using addPurchase_other_owners_unchanged [OF r n, of 0] r n c g by simp
qed




text \<open>
  C10. In every state, a successful \<open>addPurchase\<close> appends one record to the sequence of
  \<open>msg.sender\<close> and to no other sequence, names \<open>msg.sender\<close> as the merchant of its
  event, and adds grants for no principal other than the contract and \<open>msg.sender\<close>.
\<close>

theorem addPurchase_owner_is_sender:
  "snd (addPurchase e s itm u q a pr) = Inr s' \<Longrightarrow>
     (\<exists>p. purchasesByMerchant s' =
        (purchasesByMerchant s)(msg_sender e := purchasesByMerchant s (msg_sender e) @ [p])) \<and>
     (\<forall>merchant. merchant \<noteq> msg_sender e \<longrightarrow>
        purchasesByMerchant s' merchant = purchasesByMerchant s merchant) \<and>
     snd ` (acl s' - acl s) \<subseteq> {address_this e, msg_sender e} \<and>
     ev_merchant (last (events s')) = msg_sender e"
  by (auto simp add: addPurchase_Inr store_purchase_purchases store_purchase_acl
      store_purchase_events)

theorem addPurchase_owner_is_sender_witness:
  "snd (addPurchase env_bob (apply_tx init_state (env_alice, AddPurchase ''Coffee'' 1 2 3 []))
          ''Tea'' 4 5 6 []) =
     Inr (apply_tx (apply_tx init_state (env_alice, AddPurchase ''Coffee'' 1 2 3 []))
            (env_bob, AddPurchase ''Tea'' 4 5 6 [])) \<and>
   alice \<noteq> msg_sender env_bob \<and>
   purchasesByMerchant (apply_tx (apply_tx init_state (env_alice, AddPurchase ''Coffee'' 1 2 3 []))
            (env_bob, AddPurchase ''Tea'' 4 5 6 [])) alice =
     [\<lparr>userId = 1, item = ''Coffee'', quantity = 2, amount = 3, timestamp = 1700000000\<rparr>] \<and>
   ev_merchant (last (events (apply_tx (apply_tx init_state
            (env_alice, AddPurchase ''Coffee'' 1 2 3 []))
            (env_bob, AddPurchase ''Tea'' 4 5 6 [])))) = bob"
proof -
  let ?s1 = "apply_tx init_state (env_alice, AddPurchase ''Coffee'' 1 2 3 [])"
  let ?s2 = "apply_tx ?s1 (env_bob, AddPurchase ''Tea'' 4 5 6 [])"
  have r: "snd (addPurchase env_bob ?s1 ''Tea'' 4 5 6 []) = Inr ?s2"
    by (simp add: apply_tx_AddPurchase addPurchase_eq env_bob_def accept_all_def)
  have n: "alice \<noteq> msg_sender env_bob"
    by (simp add: alice_def bob_def env_bob_def)
  have c: "purchasesByMerchant ?s1 alice =
     [\<lparr>userId = 1, item = ''Coffee'', quantity = 2, amount = 3, timestamp = 1700000000\<rparr>]"
    by (simp add: apply_tx_AddPurchase env_alice_def accept_all_def store_purchase_purchases
        init_state_def)
  have b: "msg_sender env_bob = bob"
    by (simp add: env_bob_def)
  show ?thesis
    using addPurchase_owner_is_sender [OF r] r n c b by simp
qed

end
